theory Spec2Isabelle
  imports Main "HOL-Library.Word"
begin

unbundle bit_operations_syntax

section \<open>Bytes, hexadecimal text and the Python library functions the scripts call\<close>

type_synonym byte = "8 word"
type_synonym bytes = "byte list"

text \<open>
  Exceptions of the Python run time that the modelled code can meet. A function of the
  source that can let one escape returns \<open>py_error + 'a\<close>, with \<open>Inl\<close> the exception.
\<close>

datatype py_error = OverflowError | MemoryError | ValueError | StructError

text \<open>The result of a call into the HID library: it returns a value or raises.\<close>

datatype 'a outcome = Returns 'a | Raises

subsection \<open>\<open>str.replace\<close>\<close>

text \<open>
  \<open>s.replace(old, new)\<close> scans \<open>s\<close> from the left and replaces every non-overlapping
  occurrence of \<open>old\<close>. For the empty pattern Python puts \<open>new\<close> before every character
  and at the end.
\<close>

fun replace_nonempty :: "string \<Rightarrow> string \<Rightarrow> string \<Rightarrow> string" where
  "replace_nonempty old new [] = []"
| "replace_nonempty old new (c # cs) =
     (if old \<noteq> [] \<and> take (length old) (c # cs) = old
      then new @ replace_nonempty old new (drop (length old - 1) cs)
      else c # replace_nonempty old new cs)"

definition str_replace :: "string \<Rightarrow> string \<Rightarrow> string \<Rightarrow> string" where
  "str_replace old new s =
     (if old = [] then new @ concat (map (\<lambda>c. c # new) s) else replace_nonempty old new s)"

subsection \<open>\<open>bytes.fromhex\<close>, \<open>bytes.hex\<close> and the format \<open>02x\<close>\<close>

text \<open>
  \<open>Py_ISSPACE\<close>: space, tab, line feed, vertical tab, form feed, carriage return.
\<close>

definition isspace :: "char \<Rightarrow> bool" where
  "isspace c = (let n = (of_char c :: nat) in n = 32 \<or> (9 \<le> n \<and> n \<le> 13))"

definition digit_value :: "char \<Rightarrow> nat option" where
  "digit_value c =
     (let n = (of_char c :: nat) in
      if 48 \<le> n \<and> n \<le> 57 then Some (n - 48)
      else if 97 \<le> n \<and> n \<le> 102 then Some (n - 87)
      else if 65 \<le> n \<and> n \<le> 70 then Some (n - 55)
      else None)"

text \<open>
  \<open>bytes.fromhex\<close> (CPython 3.7 and later): before each byte a run of ASCII whitespace
  is skipped, then two hexadecimal digits must follow one another directly. Anything
  else raises \<open>ValueError\<close>, here \<open>None\<close>.
\<close>

fun fromhex :: "string \<Rightarrow> bytes option" where
  "fromhex [] = Some []"
| "fromhex [c] = (if isspace c then Some [] else None)"
| "fromhex (c # d # cs) =
     (if isspace c then fromhex (d # cs)
      else (case digit_value c of
              None \<Rightarrow> None
            | Some hi \<Rightarrow>
                (case digit_value d of
                   None \<Rightarrow> None
                 | Some lo \<Rightarrow>
                     (case fromhex cs of
                        None \<Rightarrow> None
                      | Some bs \<Rightarrow> Some (word_of_nat (16 * hi + lo) # bs)))))"

definition hex_digit :: "nat \<Rightarrow> char" where
  "hex_digit n = char_of (if n < 10 then 48 + n else 87 + n)"

definition byte_hex :: "byte \<Rightarrow> string" where
  "byte_hex b = [hex_digit (unat b div 16), hex_digit (unat b mod 16)]"

definition bytes_hex :: "bytes \<Rightarrow> string" where
  "bytes_hex bs = concat (map byte_hex bs)"

fun hex_of_nat :: "nat \<Rightarrow> string" where
  "hex_of_nat n = (if n < 16 then [hex_digit n] else hex_of_nat (n div 16) @ [hex_digit (n mod 16)])"

declare hex_of_nat.simps [simp del]

text \<open>
  \<open>f"{n:02x}"\<close>: lower-case hexadecimal, zero-padded to width 2; the sign of a negative
  number counts in the width.
\<close>

definition format_02x :: "int \<Rightarrow> string" where
  "format_02x n =
     (if 0 \<le> n
      then (let h = hex_of_nat (nat n) in replicate (2 - length h) (CHR ''0'') @ h)
      else CHR ''-'' # hex_of_nat (nat (- n)))"

subsection \<open>\<open>int.to_bytes\<close>, \<open>bytes([n])\<close>, \<open>struct.unpack\<close> and slices\<close>

definition to_bytes2_little :: "int \<Rightarrow> py_error + bytes" where
  "to_bytes2_little n =
     (if 0 \<le> n \<and> n \<le> 65535 then Inr [word_of_int (n mod 256), word_of_int (n div 256)]
      else Inl OverflowError)"

text \<open>\<open>bytes([n])\<close> raises \<open>ValueError\<close> unless \<open>n\<close> is in \<open>range(256)\<close>.\<close>

definition bytes_of_int :: "int \<Rightarrow> py_error + bytes" where
  "bytes_of_int n = (if 0 \<le> n \<and> n \<le> 255 then Inr [word_of_int n] else Inl ValueError)"

text \<open>
  The machine the script runs on, as far as building a bytes object depends on it:
  \<open>sys.maxsize\<close>, and the largest count of bytes that an allocation can still get.
\<close>

record machine =
  maxsize :: int
  alloc_limit :: int

text \<open>
  \<open>bytes(n)\<close>: \<open>n\<close> zero bytes. A negative count raises \<open>ValueError\<close>, a count above
  \<open>sys.maxsize\<close> raises \<open>OverflowError\<close>, and \<open>MemoryError\<close> is raised when the allocation
  fails. \<open>bytes(0)\<close> is the shared empty object and allocates nothing.
\<close>

definition bytes_zeros :: "machine \<Rightarrow> int \<Rightarrow> py_error + bytes" where
  "bytes_zeros m n =
     (if n < 0 then Inl ValueError
      else if n = 0 then Inr []
      else if maxsize m < n then Inl OverflowError
      else if alloc_limit m < n then Inl MemoryError
      else Inr (replicate (nat n) 0))"

text \<open>\<open>data[i:j]\<close> for non-negative \<open>i\<close> and \<open>j\<close>: a slice is clipped to the data.\<close>

definition slice :: "nat \<Rightarrow> nat \<Rightarrow> 'a list \<Rightarrow> 'a list" where
  "slice i j xs = take (j - i) (drop i xs)"

text \<open>\<open>struct.unpack(">H", b)[0]\<close>: exactly two bytes, most significant first.\<close>

definition unpack_be_H :: "bytes \<Rightarrow> py_error + int" where
  "unpack_be_H b =
     (case b of [b0, b1] \<Rightarrow> Inr (256 * uint b0 + uint b1) | _ \<Rightarrow> Inl StructError)"

section \<open>The HID controller (\<open>hid_controller.py\<close>)\<close>

text \<open>
  A handle of the HID library, as far as the controller uses it: what \<open>write\<close> does with
  a report (the count it returns, or an exception), the same for \<open>send_feature_report\<close>,
  and whether \<open>close\<close> and the two string queries of \<open>_try_connect\<close> raise.
\<close>

record hid_device =
  write_outcome :: "bytes \<Rightarrow> int outcome"
  feature_outcome :: "bytes \<Rightarrow> int outcome"
  close_outcome :: "unit outcome"
  info_outcome :: "unit outcome"

text \<open>The lines the controller prints, by kind, with the values they show.\<close>

datatype message =
    NotConnected
  | OutputReportSent int
  | OutputReportFailed
  | FeatureReportSent int int
  | FeatureReportFailed
  | LengthWarning nat int
  | SendingCommand string nat
  | HexFormatError
  | SendCommandFailed
  | RpmOutOfRange int
  | SettingFanSpeed int
  | CommandText string
  | EnteringRealtimeMode
  | InvalidGear int int
  | GearRangeHint
  | SettingGear int int
  | BrightnessZero
  | BrightnessFull
  | BrightnessUnsupported
  | Connected int int
  | ConnectFailed int int
  | Disconnected

text \<open>
  The controller object (\<open>device\<close>, \<open>vendor_id\<close>, \<open>product_id\<close>) together with the
  effects of its methods on the outside: the lines printed (\<open>stdout\<close>) and the reports
  handed to \<open>device.write\<close> (\<open>hid_writes\<close>) and to \<open>device.send_feature_report\<close>
  (\<open>hid_features\<close>), in order; and the machine it runs on (\<open>host\<close>).
\<close>

record controller =
  device :: "hid_device option"
  vendor_id :: "int option"
  product_id :: "int option"
  stdout :: "message list"
  hid_writes :: "bytes list"
  hid_features :: "bytes list"
  host :: machine

text \<open>A 64-bit machine that can allocate up to 1 GiB at once, and a fresh controller on it.\<close>

definition default_host :: machine where
  "default_host = \<lparr>maxsize = 2 ^ 63 - 1, alloc_limit = 2 ^ 30\<rparr>"

definition init :: controller where
  "init = \<lparr>device = None, vendor_id = None, product_id = None, stdout = [], hid_writes = [],
            hid_features = [], host = default_host\<rparr>"

definition print :: "message \<Rightarrow> controller \<Rightarrow> controller" where
  "print m s = s\<lparr>stdout := stdout s @ [m]\<rparr>"



definition send_output_report :: "controller \<Rightarrow> bytes \<Rightarrow> bool \<times> controller" where
  "send_output_report s data =
     (case device s of
        None \<Rightarrow> (False, print NotConnected s)
      | Some d \<Rightarrow>
          (let s' = s\<lparr>hid_writes := hid_writes s @ [data]\<rparr> in
           case write_outcome d data of
             Returns n \<Rightarrow> (True, print (OutputReportSent n) s')
           | Raises \<Rightarrow> (False, print OutputReportFailed s')))"

text \<open>The first statement of \<open>send_hex_command\<close>: \<open>hex_string.replace(" ", "").replace("0x", "")\<close>.\<close>

definition strip_hex_string :: "string \<Rightarrow> string" where
  "strip_hex_string hex_string = str_replace ''0x'' [] (str_replace '' '' [] hex_string)"

text \<open>
  The two handlers of \<open>send_hex_command\<close>: \<open>except ValueError\<close> prints the format line,
  \<open>except Exception\<close> the send-failed line; both return \<open>False\<close>.
\<close>

definition command_error :: "py_error \<Rightarrow> message" where
  "command_error e = (if e = ValueError then HexFormatError else SendCommandFailed)"

text \<open>
  In the \<open>try\<close> block three calls can raise: \<open>bytes.fromhex\<close>, \<open>bytes(padding_needed)\<close>
  and \<open>bytes([report_id])\<close>, in this order. The concatenation that follows adds the
  report id and the payload to a padding that exists already; it is taken to succeed.
\<close>

definition send_hex_command :: "controller \<Rightarrow> string \<Rightarrow> int \<Rightarrow> int \<Rightarrow> bool \<times> controller" where
  "send_hex_command s hex_string report_id padding_length =
     (let hex_string' = strip_hex_string hex_string in
      case fromhex hex_string' of
        None \<Rightarrow> (False, print (command_error ValueError) s)
      | Some payload \<Rightarrow>
          (let padding_needed = padding_length - 1 - int (length payload);
               s1 = (if padding_needed < 0
                     then print (LengthWarning (length payload) (padding_length - 1)) s
                     else s);
               padding_needed' = (if padding_needed < 0 then 0 else padding_needed)
           in case bytes_zeros (host s1) padding_needed' of
                Inl e \<Rightarrow> (False, print (command_error e) s1)
              | Inr padding \<Rightarrow>
                  (case bytes_of_int report_id of
                     Inl e \<Rightarrow> (False, print (command_error e) s1)
                   | Inr rid \<Rightarrow>
                       (let command = rid @ payload @ padding in
                        send_output_report
                          (print (SendingCommand hex_string' (length command)) s1) command))))"

text \<open>The default arguments of \<open>send_hex_command\<close>: \<open>report_id = 0x02\<close>, \<open>padding_length = 23\<close>.\<close>

definition send_hex_command_default :: "controller \<Rightarrow> string \<Rightarrow> bool \<times> controller" where
  "send_hex_command_default s hex_string = send_hex_command s hex_string 2 23"

definition calculate_checksum :: "int \<Rightarrow> py_error + int" where
  "calculate_checksum rpm =
     (case to_bytes2_little rpm of
        Inl e \<Rightarrow> Inl e
      | Inr speed_bytes \<Rightarrow>
          (let byte0 = 0x5A; byte1 = 0xA5; byte2 = 0x21; byte3 = 0x04;
               byte4 = uint (speed_bytes ! 0);
               byte5 = uint (speed_bytes ! 1)
           in Inr ((byte0 + byte1 + byte2 + byte3 + byte4 + byte5 + 1) AND 0xFF)))"


text \<open>The command text that \<open>set_fan_speed\<close> formats from the speed bytes and the checksum.\<close>

definition speed_command_text :: "bytes \<Rightarrow> int \<Rightarrow> string" where
  "speed_command_text speed_bytes checksum =
     ''5aa52104'' @ bytes_hex speed_bytes @ format_02x checksum
       @ ''00000000000000000000000000000000''"

definition set_fan_speed :: "controller \<Rightarrow> int \<Rightarrow> py_error + bool \<times> controller" where
  "set_fan_speed s rpm =
     (if \<not> (0 \<le> rpm \<and> rpm \<le> 65535) then Inr (False, print (RpmOutOfRange rpm) s)
      else
        (case to_bytes2_little rpm of
           Inl e \<Rightarrow> Inl e
         | Inr speed_bytes \<Rightarrow>
             (case calculate_checksum rpm of
                Inl e \<Rightarrow> Inl e
              | Inr checksum \<Rightarrow>
                  (let command = speed_command_text speed_bytes checksum in
                   Inr (send_hex_command_default
                          (print (CommandText command) (print (SettingFanSpeed rpm) s))
                          command)))))"

definition gear_positions :: "((int \<times> int) \<times> string) list" where
  "gear_positions =
     [((1, 1), ''5aa526050014054400000000000000000000000000000000''),
      ((1, 2), ''5aa5260500a406d500000000000000000000000000000000''),
      ((1, 3), ''5aa52605006c079e00000000000000000000000000000000''),
      ((2, 1), ''5aa526050134086800000000000000000000000000000000''),
      ((2, 2), ''5aa526050160099500000000000000000000000000000000''),
      ((2, 3), ''5aa52605018c0ac200000000000000000000000000000000''),
      ((3, 1), ''5aa5260502f00a2700000000000000000000000000000000''),
      ((3, 2), ''5aa5260502b80bf000000000000000000000000000000000''),
      ((3, 3), ''5aa5260502e40c1d00000000000000000000000000000000''),
      ((4, 1), ''5aa5260503ac0de700000000000000000000000000000000''),
      ((4, 2), ''5aa5260503740eb000000000000000000000000000000000''),
      ((4, 3), ''5aa5260503a00fdd00000000000000000000000000000000'')]"

definition set_gear_position :: "controller \<Rightarrow> int \<Rightarrow> int \<Rightarrow> bool \<times> controller" where
  "set_gear_position s gear position =
     (case map_of gear_positions (gear, position) of
        None \<Rightarrow> (False, print GearRangeHint (print (InvalidGear gear position) s))
      | Some command \<Rightarrow>
          send_hex_command_default (print (SettingGear gear position) s) command)"

definition set_brightness :: "controller \<Rightarrow> int \<Rightarrow> bool \<times> controller" where
  "set_brightness s percentage =
     (if percentage = 0 then
        send_hex_command_default (print BrightnessZero s)
          ''5aa5470d1c00ff00000000000000006f0000000000000000''
      else if percentage = 100 then
        send_hex_command_default (print BrightnessFull s)
          ''5aa543024500000000000000000000000000000000000000''
      else (False, print BrightnessUnsupported s))"


section \<open>The telemetry decoder (\<open>ble_read.py\<close>)\<close>

text \<open>
  \<open>parse_speed_data\<close> returns the pair \<open>(target_speed, actual_speed)\<close>, or \<open>(None, None)\<close>
  for a short packet and when \<open>struct.unpack\<close> raises. Its diagnostic lines are left out.
\<close>

definition parse_speed_data :: "bytes \<Rightarrow> int option \<times> int option" where
  "parse_speed_data data =
     (if length data < 12 then (None, None)
      else
        (case unpack_be_H (slice 8 10 data) of
           Inl _ \<Rightarrow> (None, None)
         | Inr target_speed \<Rightarrow>
             (case unpack_be_H (slice 10 12 data) of
                Inl _ \<Rightarrow> (None, None)
              | Inr actual_speed \<Rightarrow> (Some target_speed, Some actual_speed))))"

section \<open>Observations, sample inputs and the layouts the properties speak of\<close>

text \<open>What a call of \<open>set_fan_speed\<close> shows outside: its result and the reports written.\<close>

definition observe :: "py_error + bool \<times> controller \<Rightarrow> py_error + bool \<times> bytes list" where
  "observe r = (case r of Inl e \<Rightarrow> Inl e | Inr (ok, s) \<Rightarrow> Inr (ok, hid_writes s))"


text \<open>
  Whether \<open>bytes(n)\<close> returns on the machine: the count is zero or less (the padding is
  then empty), or within \<open>sys.maxsize\<close> and within reach of the allocator.
\<close>

definition allocates :: "machine \<Rightarrow> int \<Rightarrow> bool" where
  "allocates m n = (n \<le> 0 \<or> (n \<le> maxsize m \<and> n \<le> alloc_limit m))"

text \<open>A handle on which every call returns, and a fresh controller holding it.\<close>

definition working_device :: hid_device where
  "working_device =
     \<lparr>write_outcome = (\<lambda>data. Returns (int (length data))),
      feature_outcome = (\<lambda>data. Returns (int (length data))),
      close_outcome = Returns (),
      info_outcome = Returns ()\<rparr>"

definition connected :: controller where
  "connected = init\<lparr>device := Some working_device\<rparr>"



text \<open>The packet quoted in the docstring of \<open>parse_speed_data\<close>.\<close>

definition sample_packet :: bytes where
  "sample_packet =
     [0x5a, 0xa5, 0xef, 0x0b, 0x4a, 0x07, 0x05, 0xe4, 0x0c, 0xe4, 0x0c, 0xfb,
      0x00, 0x2b, 0, 0, 0, 0, 0, 0, 0, 0, 0, 0]"

text \<open>
  The byte layout a test builds directly for a 16-bit field of a telemetry packet: most
  significant byte first.
\<close>

definition big_endian_u16 :: "int \<Rightarrow> bytes" where
  "big_endian_u16 n = [word_of_int (n div 256), word_of_int (n mod 256)]"



section \<open>Hexadecimal text: encoding, decoding and stripping\<close>

lemma of_char_hex_digit:
  "n < 16 \<Longrightarrow> of_char (hex_digit n) = (if n < 10 then 48 + n else 87 + n)"
  by (simp add: hex_digit_def)

lemma digit_value_hex_digit: "n < 16 \<Longrightarrow> digit_value (hex_digit n) = Some n"
  by (simp add: digit_value_def of_char_hex_digit Let_def)

lemma not_isspace_hex_digit: "n < 16 \<Longrightarrow> \<not> isspace (hex_digit n)"
  by (simp add: isspace_def of_char_hex_digit Let_def)

lemma hex_digit_not_x: "n < 16 \<Longrightarrow> hex_digit n \<noteq> CHR ''x''"
proof
  assume n: "n < 16" and "hex_digit n = CHR ''x''"
  then have "(of_char (hex_digit n) :: nat) = of_char (CHR ''x'')" by simp
  with n show False by (simp add: of_char_hex_digit split: if_splits)
qed

lemma hex_digit_not_space: "n < 16 \<Longrightarrow> hex_digit n \<noteq> CHR '' ''"
proof
  assume n: "n < 16" and "hex_digit n = CHR '' ''"
  then have "(of_char (hex_digit n) :: nat) = of_char (CHR '' '')" by simp
  with n show False by (simp add: of_char_hex_digit split: if_splits)
qed

lemma unat_byte_div16: "unat (b :: byte) div 16 < 16"
proof -
  have "unat b < 2 ^ LENGTH(8)" by (rule unsigned_less)
  then show ?thesis by simp
qed

lemma fromhex_byte_hex:
  "fromhex (byte_hex b @ cs) = (case fromhex cs of None \<Rightarrow> None | Some bs \<Rightarrow> Some (b # bs))"
  by (simp add: byte_hex_def digit_value_hex_digit not_isspace_hex_digit unat_byte_div16
      split: option.splits)

lemma fromhex_bytes_hex:
  "fromhex (bytes_hex bs @ cs) = (case fromhex cs of None \<Rightarrow> None | Some bs' \<Rightarrow> Some (bs @ bs'))"
  by (induction bs) (simp_all add: bytes_hex_def fromhex_byte_hex split: option.splits)

lemma fromhex_bytes_hex_all: "fromhex (bytes_hex bs) = Some bs"
  using fromhex_bytes_hex [of bs "[]"] by simp

lemma replace_nonempty_absent:
  "c \<in> set old \<Longrightarrow> c \<notin> set s \<Longrightarrow> replace_nonempty old new s = s"
proof (induction s)
  case Nil
  then show ?case by simp
next
  case (Cons a s)
  have "take (length old) (a # s) \<noteq> old"
  proof
    assume "take (length old) (a # s) = old"
    then have "set old \<subseteq> set (a # s)" by (metis set_take_subset)
    with Cons.prems show False by auto
  qed
  with Cons show ?case by simp
qed

lemma set_byte_hex: "c \<in> set (byte_hex b) \<Longrightarrow> c \<noteq> CHR ''x'' \<and> c \<noteq> CHR '' ''"
  by (auto simp: byte_hex_def hex_digit_not_x hex_digit_not_space unat_byte_div16)

lemma set_bytes_hex: "c \<in> set (bytes_hex bs) \<Longrightarrow> c \<noteq> CHR ''x'' \<and> c \<noteq> CHR '' ''"
  by (auto simp: bytes_hex_def dest: set_byte_hex)

lemma strip_bytes_hex: "strip_hex_string (bytes_hex bs) = bytes_hex bs"
proof -
  have 1: "CHR '' '' \<notin> set (bytes_hex bs)" and 2: "CHR ''x'' \<notin> set (bytes_hex bs)"
    using set_bytes_hex by blast+
  show ?thesis
    by (simp add: strip_hex_string_def str_replace_def
        replace_nonempty_absent [OF _ 1] replace_nonempty_absent [OF _ 2])
qed

lemma char_of_48: "char_of (48 :: nat) = CHR ''0''"
  by code_simp

lemma format_02x_byte:
  assumes "0 \<le> n" "n \<le> 255"
  shows "format_02x n = byte_hex (word_of_int n)"
proof -
  define m where "m = nat n"
  have m: "n = int m" "m < 256" using assms by (simp_all add: m_def)
  have u: "unat (word_of_int (int m) :: byte) = m"
    using m by (simp add: unat_of_nat take_bit_nat_eq_self)
  show ?thesis
  proof (cases "m < 16")
    case True
    then show ?thesis using m u
      by (simp add: format_02x_def hex_of_nat.simps [of m] byte_hex_def hex_digit_def char_of_48)
  next
    case False
    then have "m div 16 < 16" using m by simp
    then show ?thesis using m u False
      by (simp add: format_02x_def hex_of_nat.simps [of m] hex_of_nat.simps [of "m div 16"]
          byte_hex_def)
  qed
qed

lemma and_255: "(x :: int) AND 255 = x mod 256"
  using take_bit_eq_mask [of 8 x] by (simp add: take_bit_eq_mod mask_eq_exp_minus_1)

section \<open>Sending reports\<close>

lemma print_fields [simp]:
  "device (print m s) = device s"
  "hid_writes (print m s) = hid_writes s"
  "hid_features (print m s) = hid_features s"
  "vendor_id (print m s) = vendor_id s"
  "product_id (print m s) = product_id s"
  "stdout (print m s) = stdout s @ [m]"
  "host (print m s) = host s"
  by (simp_all add: print_def)

lemma send_output_report_result:
  "fst (send_output_report s data) =
     (case device s of None \<Rightarrow> False | Some d \<Rightarrow> write_outcome d data \<noteq> Raises)"
  by (simp add: send_output_report_def Let_def split: option.splits outcome.splits)

lemma send_output_report_writes:
  "hid_writes (snd (send_output_report s data)) =
     (case device s of None \<Rightarrow> hid_writes s | Some d \<Rightarrow> hid_writes s @ [data])"
  by (simp add: send_output_report_def Let_def split: option.splits outcome.splits)

lemma send_output_report_device:
  "device (snd (send_output_report s data)) = device s"
  by (simp add: send_output_report_def Let_def split: option.splits outcome.splits)



lemma bytes_zeros_empty [simp]: "bytes_zeros m 0 = Inr []"
  by (simp add: bytes_zeros_def)

lemma bytes_zeros_allocates:
  "0 \<le> n \<Longrightarrow> allocates m n \<Longrightarrow> bytes_zeros m n = Inr (replicate (nat n) 0)"
  by (auto simp: bytes_zeros_def allocates_def)


lemma send_hex_command_decoded:
  assumes "fromhex (strip_hex_string h) = Some payload" "0 \<le> rid" "rid \<le> 255"
    and "allocates (host s) (pl - 1 - int (length payload))"
  shows "send_hex_command s h rid pl =
           send_output_report
             (print (SendingCommand (strip_hex_string h)
                       (Suc (length payload + nat (pl - 1 - int (length payload)))))
                (if pl - 1 - int (length payload) < 0
                 then print (LengthWarning (length payload) (pl - 1)) s else s))
             (word_of_int rid # payload @ replicate (nat (pl - 1 - int (length payload))) 0)"
proof (cases "pl - 1 - int (length payload) < 0")
  case True
  then show ?thesis
    using assms(1-3) by (simp add: send_hex_command_def bytes_of_int_def Let_def)
next
  case False
  then have "bytes_zeros (host s) (pl - 1 - int (length payload))
               = Inr (replicate (nat (pl - 1 - int (length payload))) 0)"
    using assms(4) by (simp add: bytes_zeros_allocates)
  then show ?thesis
    using False assms(1-3) by (simp add: send_hex_command_def bytes_of_int_def Let_def)
qed



section \<open>The speed command\<close>

text \<open>
  Claim C7. For every \<open>rpm\<close> outside \<open>[0, 65535]\<close>, \<open>set_fan_speed\<close> reports the range
  error and returns \<open>False\<close>: it raises nothing, it sends no clamped value, and it hands no
  report to the device. Its only effect is the printed line.
\<close>

theorem set_fan_speed_out_of_range:
  assumes "rpm < 0 \<or> 65535 < rpm"
  shows "set_fan_speed s rpm = Inr (False, print (RpmOutOfRange rpm) s)
       \<and> hid_writes (print (RpmOutOfRange rpm) s) = hid_writes s
       \<and> hid_features (print (RpmOutOfRange rpm) s) = hid_features s
       \<and> stdout (print (RpmOutOfRange rpm) s) = stdout s @ [RpmOutOfRange rpm]"
  using assms by (auto simp: set_fan_speed_def)

theorem set_fan_speed_out_of_range_witness:
  "((65536 :: int) < 0 \<or> (65535 :: int) < 65536)
   \<and> observe (set_fan_speed connected 65536) = Inr (False, [])
   \<and> observe (set_fan_speed connected (- 1)) = Inr (False, [])"
  using set_fan_speed_out_of_range [of 65536 connected]
    set_fan_speed_out_of_range [of "- 1" connected]
  by (simp add: observe_def connected_def init_def)

lemma bytes_hex_append: "bytes_hex (xs @ ys) = bytes_hex xs @ bytes_hex ys"
  by (simp add: bytes_hex_def)

lemma header_text: "''5aa52104'' = bytes_hex [0x5A, 0xA5, 0x21, 0x04]"
  by code_simp

lemma zeros_text: "''00000000000000000000000000000000'' = bytes_hex (replicate 16 0)"
  by code_simp

lemma speed_command_text_hex:
  assumes "0 \<le> ck" "ck \<le> 255"
  shows "speed_command_text sb ck =
           bytes_hex ([0x5A, 0xA5, 0x21, 0x04] @ sb @ [word_of_int ck] @ replicate 16 0)"
  unfolding speed_command_text_def bytes_hex_append header_text [symmetric] zeros_text [symmetric]
  by (simp add: format_02x_byte [OF assms] bytes_hex_def)

lemma uint_low_byte: "uint (word_of_int (n mod 256) :: byte) = n mod 256"
  by (simp add: uint_word_of_int take_bit_eq_mod)

lemma uint_high_byte:
  assumes "0 \<le> n" "n \<le> 65535"
  shows "uint (word_of_int (n div 256) :: byte) = n div 256"
proof -
  have "0 \<le> n div 256" "n div 256 < 256" using assms by auto
  then show ?thesis by (simp add: uint_word_of_int take_bit_eq_mod)
qed

lemma calculate_checksum_in_range:
  assumes "0 \<le> rpm" "rpm \<le> 65535"
  shows "calculate_checksum rpm =
           Inr ((0x5A + 0xA5 + 0x21 + 0x04 + rpm mod 256 + rpm div 256 + 1) mod 256)"
  using assms
  by (simp add: calculate_checksum_def to_bytes2_little_def and_255 uint_low_byte uint_high_byte)

text \<open>
  For a speed in range, \<open>set_fan_speed\<close> comes down to one call of \<open>send_output_report\<close>:
  the text it formats has 46 hexadecimal digits, so the payload has 23 bytes, one more than
  \<open>padding_length - 1\<close>; the length warning is printed and no padding is added.
\<close>

lemma set_fan_speed_in_range:
  assumes "0 \<le> rpm" "rpm \<le> 65535"
  defines "ck \<equiv> (0x5A + 0xA5 + 0x21 + 0x04 + rpm mod 256 + rpm div 256 + 1) mod 256"
  defines "body \<equiv> [0x5A, 0xA5, 0x21, 0x04, word_of_int (rpm mod 256), word_of_int (rpm div 256),
                      word_of_int ck] @ replicate 16 (0 :: byte)"
  shows "set_fan_speed s rpm =
           Inr (send_output_report
                  (print (SendingCommand (bytes_hex body) 24)
                     (print (LengthWarning 23 22)
                        (print (CommandText (bytes_hex body)) (print (SettingFanSpeed rpm) s))))
                  (0x02 # body))"
proof -
  have ck: "0 \<le> ck" "ck \<le> 255" by (simp_all add: ck_def)
  have cmd: "speed_command_text [word_of_int (rpm mod 256), word_of_int (rpm div 256)] ck
                = bytes_hex body"
    by (simp add: speed_command_text_hex [OF ck] body_def)
  have len: "length body = 23" by (simp add: body_def)
  have dec: "fromhex (strip_hex_string (bytes_hex body)) = Some body"
    by (simp add: strip_bytes_hex fromhex_bytes_hex_all)
  have "send_hex_command_default
          (print (CommandText (bytes_hex body)) (print (SettingFanSpeed rpm) s)) (bytes_hex body)
        = send_output_report
            (print (SendingCommand (bytes_hex body) 24)
               (print (LengthWarning 23 22)
                  (print (CommandText (bytes_hex body)) (print (SettingFanSpeed rpm) s))))
            (0x02 # body)"
    unfolding send_hex_command_default_def
    by (subst send_hex_command_decoded [OF dec]) (simp_all add: len strip_bytes_hex allocates_def)
  moreover have "calculate_checksum rpm = Inr ck"
    using assms(1,2) by (simp only: calculate_checksum_in_range ck_def)
  moreover have "to_bytes2_little rpm = Inr [word_of_int (rpm mod 256), word_of_int (rpm div 256)]"
    using assms(1,2) by (simp add: to_bytes2_little_def)
  ultimately show ?thesis
    using assms(1,2) by (simp add: set_fan_speed_def cmd Let_def)
qed

text \<open>
  Claim C1. For every \<open>rpm\<close> in \<open>[0, 65535]\<close>, on a connected controller \<open>set_fan_speed\<close>
  hands exactly one report to the device: the report id \<open>02\<close>, then \<open>5A A5 21 04\<close>, the low
  and the high byte of \<open>rpm\<close>, the checksum byte
  \<open>(5A + A5 + 21 + 04 + lo + hi + 1) mod 256\<close>, and 16 zero bytes. The checksum is as
  claimed; the report has 24 bytes (a 23-byte body), not 25.
\<close>

theorem set_fan_speed_report:
  assumes "0 \<le> rpm" "rpm \<le> 65535" "device s = Some d"
  shows "observe (set_fan_speed s rpm) =
           Inr (write_outcome d
                  ([0x02, 0x5A, 0xA5, 0x21, 0x04, word_of_int (rpm mod 256), word_of_int (rpm div 256),
                    word_of_int ((0x5A + 0xA5 + 0x21 + 0x04 + rpm mod 256 + rpm div 256 + 1) mod 256)]
                   @ replicate 16 0) \<noteq> Raises,
                hid_writes s @
                 [[0x02, 0x5A, 0xA5, 0x21, 0x04, word_of_int (rpm mod 256), word_of_int (rpm div 256),
                   word_of_int ((0x5A + 0xA5 + 0x21 + 0x04 + rpm mod 256 + rpm div 256 + 1) mod 256)]
                  @ replicate 16 0])
       \<and> length ([0x02, 0x5A, 0xA5, 0x21, 0x04, word_of_int (rpm mod 256), word_of_int (rpm div 256),
                   word_of_int ((0x5A + 0xA5 + 0x21 + 0x04 + rpm mod 256 + rpm div 256 + 1) mod 256)]
                  @ replicate 16 (0 :: byte)) = 24"
  unfolding set_fan_speed_in_range [OF assms(1,2)] observe_def
  using assms(3)
  by (simp add: case_prod_beta send_output_report_result send_output_report_writes)

theorem set_fan_speed_report_witness:
  "observe (set_fan_speed connected 0) =
     Inr (True, [[0x02, 0x5A, 0xA5, 0x21, 0x04, 0x00, 0x00, 0x25,
                   0, 0, 0, 0, 0, 0, 0, 0, 0, 0, 0, 0, 0, 0, 0, 0]])
   \<and> length [0x02, 0x5A, 0xA5, 0x21, 0x04, 0x00, 0x00, 0x25 :: byte,
              0, 0, 0, 0, 0, 0, 0, 0, 0, 0, 0, 0, 0, 0, 0, 0] = 24"
  using set_fan_speed_report [of 0 connected working_device]
  by (simp add: connected_def init_def working_device_def eval_nat_numeral)

text \<open>
  Claim C2, as stated, fails at \<open>rpm = 2000\<close>: the checksum
  \<open>(5A + A5 + 21 + 04 + D0 + 07 + 1) mod 256\<close> is \<open>0xFC\<close> (the sum is 508), not \<open>0x33\<close>, so the
  command begins \<open>5aa52104d007fc\<close>.
\<close>

theorem speed_2000_counterexample:
  "observe (set_fan_speed connected 2000) =
     Inr (True, [[0x02, 0x5A, 0xA5, 0x21, 0x04, 0xD0, 0x07, 0xFC,
                   0, 0, 0, 0, 0, 0, 0, 0, 0, 0, 0, 0, 0, 0, 0, 0]])
   \<and> calculate_checksum 2000 = Inr 0xFC
   \<and> calculate_checksum 2000 \<noteq> Inr 0x33"
proof -
  have "device connected = Some working_device" "hid_writes connected = []"
    by (simp_all add: connected_def init_def)
  then show ?thesis
    unfolding set_fan_speed_in_range [of 2000, simplified] observe_def
    by (simp add: case_prod_beta send_output_report_result send_output_report_writes
        working_device_def calculate_checksum_in_range eval_nat_numeral)
qed

text \<open>
  Claim C2, amended. For \<open>rpm = 2000\<close> the checksum is \<open>0xFC\<close>, and on a connected
  controller \<open>set_fan_speed\<close> hands the device one report: the report id \<open>02\<close>, the bytes
  \<open>5A A5 21 04 D0 07 FC\<close>, and after them zero bytes only.
\<close>

theorem speed_2000_frame:
  assumes "device s = Some d"
  shows "calculate_checksum 2000 = Inr 0xFC
       \<and> (\<exists>ok zs. observe (set_fan_speed s 2000) =
                     Inr (ok, hid_writes s @ [[0x02, 0x5A, 0xA5, 0x21, 0x04, 0xD0, 0x07, 0xFC] @ zs])
                  \<and> set zs \<subseteq> {0})"
proof -
  have "observe (set_fan_speed s 2000) =
          Inr (write_outcome d ([0x02, 0x5A, 0xA5, 0x21, 0x04, 0xD0, 0x07, 0xFC] @ replicate 16 0)
                 \<noteq> Raises,
               hid_writes s @ [[0x02, 0x5A, 0xA5, 0x21, 0x04, 0xD0, 0x07, 0xFC] @ replicate 16 0])"
    unfolding set_fan_speed_in_range [of 2000, simplified] observe_def
    using assms
    by (simp add: case_prod_beta send_output_report_result send_output_report_writes)
  moreover have "set (replicate 16 (0 :: byte)) \<subseteq> {0}" by simp
  ultimately have "\<exists>ok zs. observe (set_fan_speed s 2000) =
                     Inr (ok, hid_writes s @ [[0x02, 0x5A, 0xA5, 0x21, 0x04, 0xD0, 0x07, 0xFC] @ zs])
                  \<and> set zs \<subseteq> {0}"
    by blast
  moreover have "calculate_checksum 2000 = Inr 0xFC"
    by (simp add: calculate_checksum_in_range)
  ultimately show ?thesis by simp
qed

theorem speed_2000_frame_witness:
  "calculate_checksum 2000 = Inr 0xFC
   \<and> (\<exists>ok zs. observe (set_fan_speed connected 2000) =
                 Inr (ok, [[0x02, 0x5A, 0xA5, 0x21, 0x04, 0xD0, 0x07, 0xFC] @ zs])
              \<and> set zs \<subseteq> {0})"
  using speed_2000_frame [of connected working_device]
  by (simp add: connected_def init_def)

section \<open>Telemetry\<close>

lemma slice_pair:
  assumes "i + 2 \<le> length xs"
  shows "slice i (i + 2) xs = [xs ! i, xs ! Suc i]"
proof -
  have "drop i xs = xs ! i # xs ! Suc i # drop (Suc (Suc i)) xs"
    using assms by (simp add: Cons_nth_drop_Suc)
  then show ?thesis by (simp add: slice_def)
qed

lemma parse_speed_data_short: "length data < 12 \<Longrightarrow> parse_speed_data data = (None, None)"
  by (simp add: parse_speed_data_def)

lemma parse_speed_data_long:
  assumes "12 \<le> length data"
  shows "parse_speed_data data =
           (Some (256 * uint (data ! 8) + uint (data ! 9)),
            Some (256 * uint (data ! 10) + uint (data ! 11)))"
proof -
  have "slice 8 10 data = [data ! 8, data ! 9]"
    using slice_pair [of 8 data] assms by (simp add: eval_nat_numeral)
  moreover have "slice 10 12 data = [data ! 10, data ! 11]"
    using slice_pair [of 10 data] assms by (simp add: eval_nat_numeral)
  ultimately show ?thesis
    using assms by (simp add: parse_speed_data_def unpack_be_H_def)
qed

lemma unpack_big_endian_u16:
  assumes "0 \<le> n" "n \<le> 65535"
  shows "256 * uint (big_endian_u16 n ! 0) + uint (big_endian_u16 n ! 1) = n"
  using assms by (simp add: big_endian_u16_def uint_low_byte uint_high_byte)

text \<open>
  Claim C3, as stated, fails on the packet of the docstring: bytes 8-9 are \<open>0c e4\<close> and
  bytes 10-11 are \<open>0c fb\<close>, so the decoder returns 3300 and 3323, not 1508 and 3300
  (\<open>05 e4\<close> stands at bytes 6-7, which the decoder does not read).
\<close>

theorem sample_packet_counterexample:
  "parse_speed_data sample_packet = (Some 3300, Some 3323)
   \<and> parse_speed_data sample_packet \<noteq> (Some 1508, Some 3300)"
  by (simp add: parse_speed_data_def sample_packet_def slice_def unpack_be_H_def)

text \<open>
  Claim C3, amended. Decoding any packet that begins \<open>5aa5ef0b4a0705e40ce40cfb00\<close> yields
  target speed \<open>0x0ce4 = 3300\<close> and actual speed \<open>0x0cfb = 3323\<close>.
\<close>

theorem sample_packet_speeds:
  "parse_speed_data
     ([0x5a, 0xa5, 0xef, 0x0b, 0x4a, 0x07, 0x05, 0xe4, 0x0c, 0xe4, 0x0c, 0xfb, 0x00] @ rest)
     = (Some 3300, Some 3323)"
  by (simp add: parse_speed_data_def slice_def unpack_be_H_def)

text \<open>
  Claim C4. \<open>parse_speed_data\<close> returns \<open>(None, None)\<close> for every packet shorter than 12
  bytes; for every packet of 12 bytes or more it returns bytes 8-9 as the big-endian target
  speed and bytes 10-11 as the big-endian actual speed. So a packet built with the
  big-endian fields of \<open>target\<close> and \<open>actual\<close> (both in \<open>[0, 65535]\<close>) after 8 leading bytes
  decodes to exactly \<open>(target, actual)\<close>.
\<close>

theorem parse_speed_data_layout:
  "(length data < 12 \<longrightarrow> parse_speed_data data = (None, None))
   \<and> (12 \<le> length data \<longrightarrow>
        parse_speed_data data =
          (Some (256 * uint (data ! 8) + uint (data ! 9)),
           Some (256 * uint (data ! 10) + uint (data ! 11))))
   \<and> (length pre = 8 \<and> 0 \<le> target \<and> target \<le> 65535 \<and> 0 \<le> actual \<and> actual \<le> 65535 \<longrightarrow>
        parse_speed_data (pre @ big_endian_u16 target @ big_endian_u16 actual @ rest)
          = (Some target, Some actual))"
proof (intro conjI impI)
  assume "length data < 12"
  then show "parse_speed_data data = (None, None)" by (rule parse_speed_data_short)
next
  assume "12 \<le> length data"
  then show "parse_speed_data data =
          (Some (256 * uint (data ! 8) + uint (data ! 9)),
           Some (256 * uint (data ! 10) + uint (data ! 11)))" by (rule parse_speed_data_long)
next
  assume a: "length pre = 8 \<and> 0 \<le> target \<and> target \<le> 65535 \<and> 0 \<le> actual \<and> actual \<le> 65535"
  let ?d = "pre @ big_endian_u16 target @ big_endian_u16 actual @ rest"
  have len: "12 \<le> length ?d" using a by (simp add: big_endian_u16_def)
  have t: "?d ! 8 = big_endian_u16 target ! 0" "?d ! 9 = big_endian_u16 target ! 1"
    using a by (simp_all add: nth_append big_endian_u16_def)
  have c: "?d ! 10 = big_endian_u16 actual ! 0" "?d ! 11 = big_endian_u16 actual ! 1"
    using a by (simp_all add: nth_append big_endian_u16_def)
  show "parse_speed_data ?d = (Some target, Some actual)"
    unfolding parse_speed_data_long [OF len] t c
    using a unpack_big_endian_u16 [of target] unpack_big_endian_u16 [of actual] by simp
qed

theorem parse_speed_data_layout_witness:
  "parse_speed_data [1, 2, 3] = (None, None)
   \<and> parse_speed_data (replicate 12 7) = (Some 1799, Some 1799)
   \<and> parse_speed_data (replicate 8 0 @ big_endian_u16 1500 @ big_endian_u16 65535 @ [7])
       = (Some 1500, Some 65535)"
  using parse_speed_data_layout [of "[1, 2, 3]" "replicate 8 0" 1500 65535 "[7]"]
    parse_speed_data_layout [of "replicate 12 7" "[]" 0 0 "[]"]
  by simp

section \<open>Hexadecimal command text and the length of a report\<close>












section \<open>The gear table and the brightness commands\<close>

lemma gear_keys: "map fst gear_positions =
    [(1, 1), (1, 2), (1, 3), (2, 1), (2, 2), (2, 3), (3, 1), (3, 2), (3, 3), (4, 1), (4, 2), (4, 3)]"
  by (simp add: gear_positions_def)

lemma gear_domain:
  "(map_of gear_positions (g, p) = None) = (\<not> (g \<in> {1, 2, 3, 4} \<and> p \<in> {1, 2, 3}))"
  unfolding map_of_eq_None_iff set_map [symmetric] gear_keys by auto

lemma gear_keys_distinct: "distinct (map fst gear_positions)"
  unfolding gear_keys by simp

lemma gear_frames_distinct: "distinct (map (\<lambda>e. fromhex (snd e)) gear_positions)"
  by code_simp

lemma gear_frames_decode:
  "list_all (\<lambda>e. take 8 (snd e) = ''5aa52605'' \<and> strip_hex_string (snd e) = snd e
              \<and> (case fromhex (snd e) of None \<Rightarrow> False
                  | Some b \<Rightarrow> length b = 24 \<and> take 4 b = [0x5A, 0xA5, 0x26, 0x05]))
     gear_positions"
  by code_simp

lemma gear_entry:
  assumes "map_of gear_positions k = Some f"
  shows "take 8 f = ''5aa52605'' \<and> strip_hex_string f = f
       \<and> (\<exists>b. fromhex f = Some b \<and> length b = 24 \<and> take 4 b = [0x5A, 0xA5, 0x26, 0x05])"
proof -
  have "(k, f) \<in> set gear_positions" using assms by (rule map_of_SomeD)
  with gear_frames_decode show ?thesis
    by (auto simp: list_all_iff split: option.splits)
qed

text \<open>
  Claim C10. The gear table has 12 entries, one for each pair of \<open>{1,2,3,4} \<times> {1,2,3}\<close>;
  distinct pairs have distinct frames, as text and as decoded bytes; every frame begins
  with the header bytes \<open>5A A5 26 05\<close>.
\<close>

theorem gear_table_injective:
  "(map_of gear_positions k1 = Some f1 \<and> map_of gear_positions k2 = Some f2 \<and> k1 \<noteq> k2 \<longrightarrow>
      f1 \<noteq> f2 \<and> fromhex f1 \<noteq> fromhex f2)
   \<and> (map_of gear_positions k = Some f \<longrightarrow>
        take 8 f = ''5aa52605'' \<and> (\<exists>b. fromhex f = Some ([0x5A, 0xA5, 0x26, 0x05] @ b)))
   \<and> dom (map_of gear_positions) = {1, 2, 3, 4} \<times> {1, 2, 3}
   \<and> length gear_positions = 12"
proof (intro conjI impI)
  assume a: "map_of gear_positions k1 = Some f1 \<and> map_of gear_positions k2 = Some f2 \<and> k1 \<noteq> k2"
  then have m: "(k1, f1) \<in> set gear_positions" "(k2, f2) \<in> set gear_positions"
    by (auto dest: map_of_SomeD)
  have inj: "inj_on (\<lambda>e. fromhex (snd e)) (set gear_positions)"
    using gear_frames_distinct by (simp add: distinct_map)
  show "fromhex f1 \<noteq> fromhex f2"
  proof
    assume "fromhex f1 = fromhex f2"
    with inj_onD [OF inj, of "(k1, f1)" "(k2, f2)"] m have "(k1, f1) = (k2, f2)" by simp
    with a show False by simp
  qed
  then show "f1 \<noteq> f2" by auto
next
  assume "map_of gear_positions k = Some f"
  from gear_entry [OF this] obtain b where
    "take 8 f = ''5aa52605''" "fromhex f = Some b" "take 4 b = [0x5A, 0xA5, 0x26, 0x05]"
    by blast
  moreover have "b = take 4 b @ drop 4 b" by simp
  ultimately show "take 8 f = ''5aa52605''" "\<exists>b. fromhex f = Some ([0x5A, 0xA5, 0x26, 0x05] @ b)"
    by (simp, metis)
next
  show "dom (map_of gear_positions) = {1, 2, 3, 4} \<times> {1, 2, 3}"
    unfolding dom_map_of_conv_image_fst set_map [symmetric] gear_keys by auto
next
  show "length gear_positions = 12" by (simp add: gear_positions_def)
qed

theorem gear_table_injective_witness:
  "map_of gear_positions (1, 1) = Some ''5aa526050014054400000000000000000000000000000000''
   \<and> map_of gear_positions (4, 3) = Some ''5aa5260503a00fdd00000000000000000000000000000000''
   \<and> fromhex ''5aa526050014054400000000000000000000000000000000''
       \<noteq> fromhex ''5aa5260503a00fdd00000000000000000000000000000000''
   \<and> (\<exists>b. fromhex ''5aa526050014054400000000000000000000000000000000''
            = Some ([0x5A, 0xA5, 0x26, 0x05] @ b))"
proof -
  have 1: "map_of gear_positions (1, 1) = Some ''5aa526050014054400000000000000000000000000000000''"
    and 2: "map_of gear_positions (4, 3) = Some ''5aa5260503a00fdd00000000000000000000000000000000''"
    by (simp_all add: gear_positions_def)
  show ?thesis
    using gear_table_injective [of "(1, 1)" "''5aa526050014054400000000000000000000000000000000''"
        "(4, 3)" "''5aa5260503a00fdd00000000000000000000000000000000''"
        "(1, 1)" "''5aa526050014054400000000000000000000000000000000''"] 1 2
    by simp
qed

lemma send_default_frame:
  assumes "fromhex (strip_hex_string f) = Some b" "length b = 24"
  shows "fst (send_hex_command_default s f) =
           (case device s of None \<Rightarrow> False | Some d \<Rightarrow> write_outcome d (0x02 # b) \<noteq> Raises)"
    and "hid_writes (snd (send_hex_command_default s f)) =
           (case device s of None \<Rightarrow> hid_writes s | Some d \<Rightarrow> hid_writes s @ [0x02 # b])"
  unfolding send_hex_command_default_def
  by (subst send_hex_command_decoded [OF assms(1)];
      simp add: assms(2) allocates_def send_output_report_result send_output_report_writes
        split: option.splits)+

lemma brightness_zero_frame:
  "fromhex (strip_hex_string ''5aa5470d1c00ff00000000000000006f0000000000000000'') =
     Some [0x5A, 0xA5, 0x47, 0x0D, 0x1C, 0x00, 0xFF, 0, 0, 0, 0, 0, 0, 0, 0, 0x6F,
           0, 0, 0, 0, 0, 0, 0, 0]"
  by code_simp

lemma brightness_full_frame:
  "fromhex (strip_hex_string ''5aa543024500000000000000000000000000000000000000'') =
     Some [0x5A, 0xA5, 0x43, 0x02, 0x45, 0, 0, 0, 0, 0, 0, 0, 0, 0, 0, 0,
           0, 0, 0, 0, 0, 0, 0, 0]"
  by code_simp

text \<open>
  Claim C6. \<open>set_gear_position\<close> fails, writing nothing, for every pair outside
  \<open>{1,2,3,4} \<times> {1,2,3}\<close>, and \<open>set_brightness\<close> for every percentage other than 0 and
  100. On a connected controller whose writes return, \<open>set_gear_position\<close> succeeds for
  each of the 12 pairs and sends the 24 bytes of its table entry after the report id, and
  \<open>set_brightness\<close> succeeds for 0 and for 100 and sends the fixed frame of each.
\<close>

theorem catalog_domains:
  "(\<not> (g \<in> {1, 2, 3, 4} \<and> p \<in> {1, 2, 3}) \<longrightarrow>
      set_gear_position s g p = (False, print GearRangeHint (print (InvalidGear g p) s)))
   \<and> (pct \<noteq> 0 \<and> pct \<noteq> 100 \<longrightarrow> set_brightness s pct = (False, print BrightnessUnsupported s))
   \<and> (device s = Some d \<and> (\<forall>data. write_outcome d data \<noteq> Raises) \<longrightarrow>
        (g \<in> {1, 2, 3, 4} \<and> p \<in> {1, 2, 3} \<longrightarrow>
           fst (set_gear_position s g p)
           \<and> (\<exists>f b. map_of gear_positions (g, p) = Some f \<and> fromhex f = Some b \<and> length b = 24
                  \<and> hid_writes (snd (set_gear_position s g p)) = hid_writes s @ [0x02 # b]))
        \<and> fst (set_brightness s 0)
        \<and> hid_writes (snd (set_brightness s 0)) =
             hid_writes s @
               [[0x02, 0x5A, 0xA5, 0x47, 0x0D, 0x1C, 0x00, 0xFF, 0, 0, 0, 0, 0, 0, 0, 0, 0x6F,
                 0, 0, 0, 0, 0, 0, 0, 0]]
        \<and> fst (set_brightness s 100)
        \<and> hid_writes (snd (set_brightness s 100)) =
             hid_writes s @
               [[0x02, 0x5A, 0xA5, 0x43, 0x02, 0x45, 0, 0, 0, 0, 0, 0, 0, 0, 0, 0, 0,
                 0, 0, 0, 0, 0, 0, 0, 0]])"
proof (intro conjI impI)
  assume "\<not> (g \<in> {1, 2, 3, 4} \<and> p \<in> {1, 2, 3})"
  then have "map_of gear_positions (g, p) = None" using gear_domain [of g p] by blast
  then show "set_gear_position s g p = (False, print GearRangeHint (print (InvalidGear g p) s))"
    by (simp add: set_gear_position_def)
next
  assume "pct \<noteq> 0 \<and> pct \<noteq> 100"
  then show "set_brightness s pct = (False, print BrightnessUnsupported s)"
    by (simp add: set_brightness_def)
next
  assume dev: "device s = Some d \<and> (\<forall>data. write_outcome d data \<noteq> Raises)"
    and dom: "g \<in> {1, 2, 3, 4} \<and> p \<in> {1, 2, 3}"
  from dom have "map_of gear_positions (g, p) \<noteq> None" using gear_domain [of g p] by blast
  then obtain f where f: "map_of gear_positions (g, p) = Some f" by blast
  from gear_entry [OF f] obtain b where
    b: "strip_hex_string f = f" "fromhex f = Some b" "length b = 24" by blast
  have dec: "fromhex (strip_hex_string f) = Some b" using b by simp
  show "fst (set_gear_position s g p)"
    using dev by (simp add: set_gear_position_def f send_default_frame(1) [OF dec b(3)])
  have "hid_writes (snd (set_gear_position s g p)) = hid_writes s @ [0x02 # b]"
    using dev by (simp add: set_gear_position_def f send_default_frame(2) [OF dec b(3)])
  with f b show "\<exists>f b. map_of gear_positions (g, p) = Some f \<and> fromhex f = Some b \<and> length b = 24
                  \<and> hid_writes (snd (set_gear_position s g p)) = hid_writes s @ [0x02 # b]"
    by blast
next
  assume dev: "device s = Some d \<and> (\<forall>data. write_outcome d data \<noteq> Raises)"
  show "fst (set_brightness s 0)"
    using dev by (simp add: set_brightness_def send_default_frame(1) [OF brightness_zero_frame])
  show "hid_writes (snd (set_brightness s 0)) =
             hid_writes s @
               [[0x02, 0x5A, 0xA5, 0x47, 0x0D, 0x1C, 0x00, 0xFF, 0, 0, 0, 0, 0, 0, 0, 0, 0x6F,
                 0, 0, 0, 0, 0, 0, 0, 0]]"
    using dev by (simp add: set_brightness_def send_default_frame(2) [OF brightness_zero_frame])
  show "fst (set_brightness s 100)"
    using dev by (simp add: set_brightness_def send_default_frame(1) [OF brightness_full_frame])
  show "hid_writes (snd (set_brightness s 100)) =
             hid_writes s @
               [[0x02, 0x5A, 0xA5, 0x43, 0x02, 0x45, 0, 0, 0, 0, 0, 0, 0, 0, 0, 0, 0,
                 0, 0, 0, 0, 0, 0, 0, 0]]"
    using dev by (simp add: set_brightness_def send_default_frame(2) [OF brightness_full_frame])
qed

theorem catalog_domains_witness:
  "set_gear_position connected 5 1 = (False, print GearRangeHint (print (InvalidGear 5 1) connected))
   \<and> set_gear_position connected 1 4 = (False, print GearRangeHint (print (InvalidGear 1 4) connected))
   \<and> set_brightness connected 50 = (False, print BrightnessUnsupported connected)
   \<and> fst (set_gear_position connected 2 3)
   \<and> fst (set_brightness connected 0)
   \<and> fst (set_brightness connected 100)
   \<and> hid_writes (snd (set_brightness connected 100)) =
        [[0x02, 0x5A, 0xA5, 0x43, 0x02, 0x45, 0, 0, 0, 0, 0, 0, 0, 0, 0, 0, 0,
          0, 0, 0, 0, 0, 0, 0, 0]]"
proof -
  have c: "device connected = Some working_device"
    "\<forall>data. write_outcome working_device data \<noteq> Raises" "hid_writes connected = []"
    by (simp_all add: connected_def init_def working_device_def)
  show ?thesis
    using catalog_domains [of 5 1 connected 50 working_device]
      catalog_domains [of 1 4 connected 50 working_device]
      catalog_domains [of 2 3 connected 50 working_device] c
    by simp
qed

section \<open>Connecting and disconnecting\<close>















end
